theory Spec2Isabelle
  imports Complex_Main "HOL-Library.Multiset"
begin

section \<open>Values, errors and the library boundary\<close>

text \<open>
  The program is \<^verbatim>\<open>finance_tracker.py\<close>. Python is dynamically typed and the
  persisted file is read with \<^verbatim>\<open>json.load\<close>, so the values that reach the program
  from a file are arbitrary JSON values. They are modelled by the datatype \<open>json\<close>; a
  dict is the list of its items in insertion order (Python dicts keep that order, and the
  keys of a dict are pairwise distinct).

  A Python \<^verbatim>\<open>int\<close> or \<^verbatim>\<open>float\<close> is the \<open>real\<close> number it denotes;
  \<^verbatim>\<open>True\<close> and \<^verbatim>\<open>False\<close> count as the numbers 1 and 0 in arithmetic, as in
  Python. The totals of \<^verbatim>\<open>get_spending_by_category\<close> are built by adding amounts
  one by one in the order of the store; that addition is the machine's, \<open>float_add\<close>
  below, which rounds and is not associative. The other arithmetic is written with the
  exact operations.
\<close>

datatype json =
    JNull
  | JBool bool
  | JNum real
  | JStr string
  | JArr "json list"
  | JObj "(string \<times> json) list"

text \<open>The exceptions the modelled code can raise.\<close>

datatype error =
    JSONDecodeError
  | KeyError string
  | TypeError
  | AttributeError
  | ValueError
  | ZeroDivisionError
  | OverflowError
  | UnicodeDecodeError
  | RecursionError
  | OSError

text \<open>
  What the standard library and the machine supply. A \<^verbatim>\<open>datetime\<close> is a naive
  instant: the number of its day (\<^verbatim>\<open>toordinal()\<close>, where 1 is 1 January of year 1)
  times the microseconds of a day, plus the microseconds since that day's midnight.
  \<open>strptime e s\<close> is \<^verbatim>\<open>datetime.strptime(s, "%Y-%m-%d")\<close>: the instant of that
  day's midnight, or \<open>None\<close> where the library raises \<^verbatim>\<open>ValueError\<close>.
  \<open>now e\<close> is \<^verbatim>\<open>datetime.now()\<close>, \<open>timestamp e\<close> is
  \<^verbatim>\<open>datetime.now().timestamp()\<close> and \<open>strftime e\<close> is
  \<^verbatim>\<open>datetime.now().strftime("%Y-%m-%d")\<close>. One operation of the tracker sees one
  reading of the clock. \<open>float_add e x y\<close> is what \<^verbatim>\<open>x + y\<close> evaluates to on two
  amounts; no law of addition is assumed of it.
\<close>

record env =
  strptime :: "string \<Rightarrow> int option"
  now :: int
  timestamp :: real
  strftime :: string
  float_add :: "real \<Rightarrow> real \<Rightarrow> real"

text \<open>A number of days in microseconds.\<close>

definition timedelta :: "int \<Rightarrow> int" where
  "timedelta days = days * 86400000000"

text \<open>
  \<^verbatim>\<open>timedelta(days=days)\<close> raises \<^verbatim>\<open>OverflowError\<close> when the magnitude of
  \<open>days\<close> exceeds 999999999.
\<close>

definition py_timedelta :: "int \<Rightarrow> error + int" where
  "py_timedelta days =
     (if \<bar>days\<bar> > 999999999 then Inl OverflowError else Inr (timedelta days))"

text \<open>
  The library's datetimes range from \<^verbatim>\<open>datetime.min\<close>, the midnight of day 1, to
  \<^verbatim>\<open>datetime.max\<close>, the last microsecond of day 3652059 (31 December 9999);
  \<^verbatim>\<open>d - delta\<close> raises \<^verbatim>\<open>OverflowError\<close> when the result is outside.
\<close>

definition datetime_min :: int where
  "datetime_min = timedelta 1"

definition datetime_max :: int where
  "datetime_max = timedelta 3652060 - 1"

definition datetime_sub :: "int \<Rightarrow> int \<Rightarrow> error + int" where
  "datetime_sub d delta =
     (if datetime_min \<le> d - delta \<and> d - delta \<le> datetime_max then Inr (d - delta)
      else Inl OverflowError)"

text \<open>
  \<^verbatim>\<open>str.lower()\<close> on the bytes of a string: the ASCII letters A to Z are mapped to
  a to z, every other byte is kept (case mappings beyond ASCII are not modelled).
\<close>

definition lower_char :: "char \<Rightarrow> char" where
  "lower_char c =
     (let n = (of_char c :: nat) in if 65 \<le> n \<and> n \<le> 90 then char_of (n + 32) else c)"

definition lower :: "string \<Rightarrow> string" where
  "lower s = map lower_char s"

text \<open>\<^verbatim>\<open>abs(x)\<close>: defined on numbers, \<^verbatim>\<open>TypeError\<close> otherwise.\<close>

fun py_abs :: "json \<Rightarrow> error + real" where
  "py_abs (JNum r) = Inr \<bar>r\<bar>"
| "py_abs (JBool b) = Inr (if b then 1 else 0)"
| "py_abs _ = Inl TypeError"

text \<open>\<^verbatim>\<open>x.lower()\<close>: only a string has the method, \<^verbatim>\<open>AttributeError\<close> otherwise.\<close>

fun py_lower :: "json \<Rightarrow> error + string" where
  "py_lower (JStr s) = Inr (lower s)"
| "py_lower _ = Inl AttributeError"

text \<open>Truth value of a Python object, as used by \<^verbatim>\<open>date or ...\<close>.\<close>

fun truthy :: "json \<Rightarrow> bool" where
  "truthy JNull = False"
| "truthy (JBool b) = b"
| "truthy (JNum r) = (r \<noteq> 0)"
| "truthy (JStr s) = (s \<noteq> [])"
| "truthy (JArr xs) = (xs \<noteq> [])"
| "truthy (JObj kvs) = (kvs \<noteq> [])"

text \<open>
  \<^verbatim>\<open>data[key]\<close> with a string key: \<^verbatim>\<open>KeyError\<close> on a dict without the key,
  \<^verbatim>\<open>TypeError\<close> on every other value (a list or a string wants an integer index,
  the rest cannot be subscripted).
\<close>

fun getitem :: "json \<Rightarrow> string \<Rightarrow> error + json" where
  "getitem (JObj kvs) k = (case map_of kvs k of None \<Rightarrow> Inl (KeyError k) | Some v \<Rightarrow> Inr v)"
| "getitem _ k = Inl TypeError"

section \<open>Transaction\<close>

record Transaction =
  id' :: json
  amount :: real
  category :: string
  description :: json
  type' :: string
  date :: json

text \<open>
  \<^verbatim>\<open>Transaction.__init__\<close>. The statements run in the source's order, so a
  non-numeric amount raises before a category without \<^verbatim>\<open>lower\<close>. The optional
  \<^verbatim>\<open>date=None\<close> is \<open>JNull\<close>.
\<close>

definition seq :: "error + 'a \<Rightarrow> ('a \<Rightarrow> error + 'b) \<Rightarrow> error + 'b" where
  "seq m f = (case m of Inl err \<Rightarrow> Inl err | Inr x \<Rightarrow> f x)"

definition Transaction_init ::
  "env \<Rightarrow> json \<Rightarrow> json \<Rightarrow> json \<Rightarrow> json \<Rightarrow> json \<Rightarrow> error + Transaction" where
  "Transaction_init e amount_arg category_arg description_arg transaction_type date_arg =
     seq (py_abs amount_arg) (\<lambda>a.
     seq (py_lower category_arg) (\<lambda>c.
     seq (py_lower transaction_type) (\<lambda>ty.
     Inr \<lparr> id' = JNum (timestamp e), amount = a, category = c,
           description = description_arg, type' = ty,
           date = (if truthy date_arg then date_arg else JStr (strftime e)) \<rparr>)))"

definition to_dict :: "Transaction \<Rightarrow> json" where
  "to_dict t =
     JObj [(''id'', id' t), (''amount'', JNum (amount t)), (''category'', JStr (category t)),
           (''description'', description t), (''type'', JStr (type' t)), (''date'', date t)]"

text \<open>
  \<^verbatim>\<open>Transaction.from_dict\<close>: the five arguments are looked up before the
  constructor runs, \<^verbatim>\<open>data['id']\<close> after it.
\<close>

definition from_dict :: "env \<Rightarrow> json \<Rightarrow> error + Transaction" where
  "from_dict e data =
     seq (getitem data ''amount'') (\<lambda>a.
     seq (getitem data ''category'') (\<lambda>c.
     seq (getitem data ''description'') (\<lambda>d.
     seq (getitem data ''type'') (\<lambda>ty.
     seq (getitem data ''date'') (\<lambda>dt.
     seq (Transaction_init e a c d ty dt) (\<lambda>t.
     seq (getitem data ''id'') (\<lambda>i.
     Inr (t\<lparr> id' := i \<rparr>))))))))"

section \<open>FinanceTracker: the store and its file\<close>

text \<open>
  The store holds the list of transactions and the budgets. \<^verbatim>\<open>load_data\<close> assigns
  to \<^verbatim>\<open>self.budgets\<close> whatever the file holds under \<^verbatim>\<open>'budgets'\<close>, so the
  field is a \<open>json\<close> value; \<^verbatim>\<open>set_budget\<close> and \<^verbatim>\<open>check_budgets\<close> use it as a
  dict.

  The data file is what \<^verbatim>\<open>os.path.exists\<close>, \<^verbatim>\<open>open\<close> and \<^verbatim>\<open>json.load\<close>
  observe of it: no file; a file on which \<^verbatim>\<open>open\<close> or \<^verbatim>\<open>json.load\<close> raises
  an exception (\<^verbatim>\<open>JSONDecodeError\<close> for text that is not JSON,
  \<^verbatim>\<open>UnicodeDecodeError\<close> for bytes that are not text, \<^verbatim>\<open>RecursionError\<close> for
  too deep a nesting, \<^verbatim>\<open>ValueError\<close> for an integer of too many digits,
  \<^verbatim>\<open>OSError\<close> for a directory or a file that may not be read); or a file holding a
  JSON document. Writing with \<^verbatim>\<open>json.dump\<close> and reading the text back gives the
  same value; that \<^verbatim>\<open>save_data\<close> can fail to write is not modelled.
\<close>

record FinanceTracker =
  transactions :: "Transaction list"
  budgets :: json

datatype data_file = NoFile | Raises error | Document json

text \<open>\<^verbatim>\<open>d.get(key, default)\<close>: only a dict has the method.\<close>

fun dict_get :: "json \<Rightarrow> string \<Rightarrow> json \<Rightarrow> error + json" where
  "dict_get (JObj kvs) k dflt = Inr (case map_of kvs k of None \<Rightarrow> dflt | Some v \<Rightarrow> v)"
| "dict_get _ k dflt = Inl AttributeError"

text \<open>
  Iterating a value in a comprehension: a list gives its elements, a dict its keys, a
  string its characters; \<^verbatim>\<open>None\<close>, booleans and numbers are not iterable.
\<close>

fun py_iter :: "json \<Rightarrow> error + json list" where
  "py_iter (JArr xs) = Inr xs"
| "py_iter (JObj kvs) = Inr (map (\<lambda>kv. JStr (fst kv)) kvs)"
| "py_iter (JStr s) = Inr (map (\<lambda>c. JStr [c]) s)"
| "py_iter _ = Inl TypeError"

text \<open>\<^verbatim>\<open>[Transaction.from_dict(t) for t in ...]\<close>: the first failure ends the loop.\<close>

fun from_dicts :: "env \<Rightarrow> json list \<Rightarrow> error + Transaction list" where
  "from_dicts e [] = Inr []"
| "from_dicts e (d # ds) =
     seq (from_dict e d) (\<lambda>t. seq (from_dicts e ds) (\<lambda>ts. Inr (t # ts)))"

text \<open>The body of the \<^verbatim>\<open>try\<close> block of \<^verbatim>\<open>load_data\<close>, after \<^verbatim>\<open>json.load\<close>.\<close>

definition load_body :: "env \<Rightarrow> json \<Rightarrow> FinanceTracker \<Rightarrow> error + FinanceTracker" where
  "load_body e data s =
     seq (dict_get data ''transactions'' (JArr [])) (\<lambda>v.
     seq (py_iter v) (\<lambda>items.
     seq (from_dicts e items) (\<lambda>ts.
     seq (dict_get data ''budgets'' (JObj [])) (\<lambda>b.
     Inr (s\<lparr> transactions := ts, budgets := b \<rparr>)))))"

text \<open>
  \<^verbatim>\<open>except (json.JSONDecodeError, KeyError)\<close>: the exceptions the clause catches.
\<close>

fun caught :: "error \<Rightarrow> bool" where
  "caught JSONDecodeError = True"
| "caught (KeyError k) = True"
| "caught _ = False"

text \<open>
  \<^verbatim>\<open>load_data\<close>. The result is the store and whether the warning was printed;
  \<open>Inl\<close> is an exception that leaves \<^verbatim>\<open>load_data\<close>. Everything from
  \<^verbatim>\<open>open\<close> on is inside the \<^verbatim>\<open>try\<close>; both assignments come after every call
  that can raise, so a caught exception leaves the store as it was.
\<close>

definition load_data :: "env \<Rightarrow> data_file \<Rightarrow> FinanceTracker \<Rightarrow> error + (FinanceTracker \<times> bool)" where
  "load_data e f s =
     (case f of
        NoFile \<Rightarrow> Inr (s, False)
      | Raises err \<Rightarrow> (if caught err then Inr (s, True) else Inl err)
      | Document data \<Rightarrow>
          (case load_body e data s of
             Inr s' \<Rightarrow> Inr (s', False)
           | Inl err \<Rightarrow> (if caught err then Inr (s, True) else Inl err)))"

text \<open>\<^verbatim>\<open>FinanceTracker.__init__\<close>: both collections empty, then \<^verbatim>\<open>load_data\<close>.\<close>

definition empty_tracker :: FinanceTracker where
  "empty_tracker = \<lparr> transactions = [], budgets = JObj [] \<rparr>"

definition FinanceTracker_init :: "env \<Rightarrow> data_file \<Rightarrow> error + (FinanceTracker \<times> bool)" where
  "FinanceTracker_init e f = load_data e f empty_tracker"

definition save_data :: "FinanceTracker \<Rightarrow> data_file" where
  "save_data s =
     Document (JObj [(''transactions'', JArr (map to_dict (transactions s))),
                     (''budgets'', budgets s)])"

text \<open>
  \<^verbatim>\<open>add_transaction\<close> with arguments of the annotated types (a number and three
  strings); the result is the store and the file it saved.
\<close>

definition add_transaction ::
  "env \<Rightarrow> FinanceTracker \<Rightarrow> real \<Rightarrow> string \<Rightarrow> string \<Rightarrow> string \<Rightarrow>
     error + (FinanceTracker \<times> data_file)" where
  "add_transaction e s amount_arg category_arg description_arg transaction_type =
     seq (Transaction_init e (JNum amount_arg) (JStr category_arg) (JStr description_arg)
            (JStr transaction_type) JNull) (\<lambda>t.
     let s' = s\<lparr> transactions := transactions s @ [t] \<rparr> in Inr (s', save_data s'))"

text \<open>\<^verbatim>\<open>d[k] = v\<close> on the items of a dict: overwrite in place, or append a new key.\<close>

fun dict_set :: "(string \<times> 'v) list \<Rightarrow> string \<Rightarrow> 'v \<Rightarrow> (string \<times> 'v) list" where
  "dict_set [] k v = [(k, v)]"
| "dict_set ((k', v') # kvs) k v =
     (if k' = k then (k', v) # kvs else (k', v') # dict_set kvs k v)"

text \<open>Item assignment with a string key is a \<^verbatim>\<open>TypeError\<close> on everything but a dict.\<close>

fun setitem :: "json \<Rightarrow> string \<Rightarrow> json \<Rightarrow> error + json" where
  "setitem (JObj kvs) k v = Inr (JObj (dict_set kvs k v))"
| "setitem _ k v = Inl TypeError"

definition set_budget ::
  "FinanceTracker \<Rightarrow> string \<Rightarrow> real \<Rightarrow> error + (FinanceTracker \<times> data_file)" where
  "set_budget s category_arg amount_arg =
     seq (setitem (budgets s) (lower category_arg) (JNum amount_arg)) (\<lambda>b.
     let s' = s\<lparr> budgets := b \<rparr> in Inr (s', save_data s'))"

section \<open>Reports\<close>

text \<open>
  \<^verbatim>\<open>datetime.strptime(t.date, "%Y-%m-%d")\<close>: a \<^verbatim>\<open>TypeError\<close> when the date is not
  a string, a \<^verbatim>\<open>ValueError\<close> when the string does not parse.
\<close>

fun py_strptime :: "env \<Rightarrow> json \<Rightarrow> error + int" where
  "py_strptime e (JStr s) = (case strptime e s of None \<Rightarrow> Inl ValueError | Some d \<Rightarrow> Inr d)"
| "py_strptime e _ = Inl TypeError"

text \<open>
  The comprehension of \<^verbatim>\<open>get_transactions_by_period\<close>: every transaction's date is
  parsed, in order, and the first exception ends the loop. The cutoff is computed
  before the loop, so its \<^verbatim>\<open>OverflowError\<close> comes before any parse error.
\<close>

fun filter_period :: "env \<Rightarrow> int \<Rightarrow> Transaction list \<Rightarrow> error + Transaction list" where
  "filter_period e cutoff_date [] = Inr []"
| "filter_period e cutoff_date (t # ts) =
     seq (py_strptime e (date t)) (\<lambda>d.
     seq (filter_period e cutoff_date ts) (\<lambda>r.
     Inr (if d \<ge> cutoff_date then t # r else r)))"

definition get_transactions_by_period ::
  "env \<Rightarrow> FinanceTracker \<Rightarrow> int \<Rightarrow> error + Transaction list" where
  "get_transactions_by_period e s days =
     seq (py_timedelta days) (\<lambda>delta.
     seq (datetime_sub (now e) delta) (\<lambda>cutoff_date.
     filter_period e cutoff_date (transactions s)))"

text \<open>\<^verbatim>\<open>spending.get(category, 0)\<close> on the items of a dict of numbers.\<close>

definition get_or :: "(string \<times> real) list \<Rightarrow> string \<Rightarrow> real \<Rightarrow> real" where
  "get_or d k dflt = (case map_of d k of None \<Rightarrow> dflt | Some v \<Rightarrow> v)"

text \<open>
  The loop of \<^verbatim>\<open>get_spending_by_category\<close> over the transactions of the period:
  \<^verbatim>\<open>spending.get(category, 0) + amount\<close> is the machine's addition.
\<close>

fun spending_loop ::
  "env \<Rightarrow> Transaction list \<Rightarrow> (string \<times> real) list \<Rightarrow> (string \<times> real) list" where
  "spending_loop e [] spending = spending"
| "spending_loop e (t # ts) spending =
     spending_loop e ts
       (if type' t = ''expense''
        then dict_set spending (category t)
               (float_add e (get_or spending (category t) 0) (amount t))
        else spending)"

text \<open>
  \<^verbatim>\<open>dict(sorted(spending.items(), key=lambda x: x[1], reverse=True))\<close>: Python's sort
  is stable, also with \<^verbatim>\<open>reverse=True\<close>, so items with equal totals keep their
  order; that is the stable sort on the negated total.
\<close>

definition sorted_desc :: "(string \<times> real) list \<Rightarrow> (string \<times> real) list" where
  "sorted_desc items = sort_key (\<lambda>x. - snd x) items"

definition get_spending_by_category ::
  "env \<Rightarrow> FinanceTracker \<Rightarrow> int \<Rightarrow> error + (string \<times> real) list" where
  "get_spending_by_category e s days =
     seq (get_transactions_by_period e s days) (\<lambda>ts.
     Inr (sorted_desc (spending_loop e ts [])))"

record summary =
  income :: real
  expenses :: real
  net :: real

definition get_income_vs_expenses :: "env \<Rightarrow> FinanceTracker \<Rightarrow> int \<Rightarrow> error + summary" where
  "get_income_vs_expenses e s days =
     seq (get_transactions_by_period e s days) (\<lambda>ts.
     let total_income = sum_list (map amount (filter (\<lambda>t. type' t = ''income'') ts));
         total_expenses = sum_list (map amount (filter (\<lambda>t. type' t = ''expense'') ts))
     in Inr \<lparr> income = total_income, expenses = total_expenses,
              net = total_income - total_expenses \<rparr>)"

record status =
  budget :: real
  spent :: real
  remaining :: real
  percentage :: real

text \<open>\<^verbatim>\<open>self.budgets.items()\<close>: only a dict has the method.\<close>

fun py_items :: "json \<Rightarrow> error + (string \<times> json) list" where
  "py_items (JObj kvs) = Inr kvs"
| "py_items _ = Inl AttributeError"

text \<open>A value as an operand of \<^verbatim>\<open>-\<close>, \<^verbatim>\<open>/\<close> and \<^verbatim>\<open>>\<close> with a number.\<close>

fun py_num :: "json \<Rightarrow> error + real" where
  "py_num (JNum r) = Inr r"
| "py_num (JBool b) = Inr (if b then 1 else 0)"
| "py_num _ = Inl TypeError"

text \<open>\<^verbatim>\<open>a / b\<close> raises \<^verbatim>\<open>ZeroDivisionError\<close> when \<open>b\<close> is zero.\<close>

definition truediv :: "real \<Rightarrow> real \<Rightarrow> error + real" where
  "truediv a b = (if b = 0 then Inl ZeroDivisionError else Inr (a / b))"

text \<open>The loop of \<^verbatim>\<open>check_budgets\<close> over the items of the budgets.\<close>

fun budget_loop ::
  "(string \<times> real) list \<Rightarrow> (string \<times> json) list \<Rightarrow> (string \<times> status) list \<Rightarrow>
     error + (string \<times> status) list" where
  "budget_loop spending [] budget_status = Inr budget_status"
| "budget_loop spending ((cat, b) # rest) budget_status =
     seq (py_num b) (\<lambda>budget_amount.
     let spent_v = get_or spending cat 0;
         remaining_v = budget_amount - spent_v
     in seq (if budget_amount > 0
             then seq (truediv spent_v budget_amount) (\<lambda>q. Inr (q * 100))
             else Inr 0) (\<lambda>percentage_v.
        budget_loop spending rest
          (dict_set budget_status cat
             \<lparr> budget = budget_amount, spent = spent_v, remaining = remaining_v,
               percentage = percentage_v \<rparr>)))"

text \<open>\<^verbatim>\<open>check_budgets\<close> takes no \<^verbatim>\<open>days\<close>: the spending is that of the default 30.\<close>

definition check_budgets :: "env \<Rightarrow> FinanceTracker \<Rightarrow> error + (string \<times> status) list" where
  "check_budgets e s =
     seq (get_spending_by_category e s 30) (\<lambda>spending.
     seq (py_items (budgets s)) (\<lambda>items.
     budget_loop spending items []))"

text \<open>
  The recommendations are f-strings in the source; here each is a constructor, with the
  values its text is formatted from:
  \<^item> \<open>Overspending\<close>: "You're spending more than you earn. Consider reducing expenses."
  \<^item> \<open>HighSpendRatio\<close>: "You're spending 80%+ of your income. Try to save more."
  \<^item> \<open>BudgetExceeded c\<close>: "You've exceeded 90% of your c budget!"
  \<^item> \<open>BudgetWarning c p\<close>: "You're at p% of your c budget."
\<close>

datatype recommendation =
    Overspending
  | HighSpendRatio
  | BudgetExceeded string
  | BudgetWarning string real

record insights =
  period_days :: int
  total_transactions :: nat
  average_expense :: real
  largest_expense :: real
  smallest_expense :: real
  most_expensive_category :: string
  recommendations :: "recommendation list"

datatype report = Message string | Insights insights

text \<open>
  \<^verbatim>\<open>statistics.mean\<close>, \<^verbatim>\<open>max\<close> and \<^verbatim>\<open>min\<close> raise on an empty sequence
  (\<^verbatim>\<open>StatisticsError\<close> is a \<^verbatim>\<open>ValueError\<close>); \<^verbatim>\<open>max\<close> with a key keeps the
  first of several maximal elements.
\<close>

fun mean :: "real list \<Rightarrow> error + real" where
  "mean [] = Inl ValueError"
| "mean (x # xs) = Inr (sum_list (x # xs) / real (length (x # xs)))"

fun py_max :: "real list \<Rightarrow> error + real" where
  "py_max [] = Inl ValueError"
| "py_max (x # xs) = Inr (fold max xs x)"

fun py_min :: "real list \<Rightarrow> error + real" where
  "py_min [] = Inl ValueError"
| "py_min (x # xs) = Inr (fold min xs x)"

fun max_by_value :: "(string \<times> real) list \<Rightarrow> error + string" where
  "max_by_value [] = Inl ValueError"
| "max_by_value (kv # kvs) =
     Inr (fst (fold (\<lambda>x best. if snd x > snd best then x else best) kvs kv))"

text \<open>The budget warnings: the last loop of \<^verbatim>\<open>get_financial_insights\<close>.\<close>

fun budget_warnings :: "(string \<times> status) list \<Rightarrow> recommendation list" where
  "budget_warnings [] = []"
| "budget_warnings ((cat, st) # rest) =
     (if percentage st > 90 then [BudgetExceeded cat]
      else if percentage st > 75 then [BudgetWarning cat (percentage st)]
      else []) @ budget_warnings rest"

definition no_data :: string where
  "no_data = ''No transactions found for the specified period.''"

definition get_financial_insights :: "env \<Rightarrow> FinanceTracker \<Rightarrow> int \<Rightarrow> error + report" where
  "get_financial_insights e s days =
     seq (get_transactions_by_period e s days) (\<lambda>ts.
     if ts = [] then Inr (Message no_data)
     else
       let expenses_l = map amount (filter (\<lambda>t. type' t = ''expense'') ts) in
       seq (if expenses_l \<noteq> [] then mean expenses_l else Inr 0) (\<lambda>avg.
       seq (if expenses_l \<noteq> [] then py_max expenses_l else Inr 0) (\<lambda>largest.
       seq (if expenses_l \<noteq> [] then py_min expenses_l else Inr 0) (\<lambda>smallest.
       seq (get_spending_by_category e s days) (\<lambda>spending_by_category.
       seq (if spending_by_category \<noteq> [] then max_by_value spending_by_category
            else Inr []) (\<lambda>most_expensive.
       seq (get_income_vs_expenses e s days) (\<lambda>income_vs_expenses.
       let r1 = (if net income_vs_expenses < 0 then [Overspending] else []);
           r2 = (if expenses income_vs_expenses > income income_vs_expenses * 0.8
                 then [HighSpendRatio] else [])
       in seq (check_budgets e s) (\<lambda>budget_status.
          Inr (Insights
            \<lparr> period_days = days, total_transactions = length ts,
              average_expense = avg, largest_expense = largest,
              smallest_expense = smallest, most_expensive_category = most_expensive,
              recommendations = r1 @ r2 @ budget_warnings budget_status \<rparr>)))))))))"

section \<open>Notions used to state the properties\<close>

text \<open>
  A transaction's date parses when \<^verbatim>\<open>strptime\<close> returns for it; it is in the period
  of \<open>days\<close> days when the parsed date is not before \<^verbatim>\<open>now - timedelta(days)\<close>.
\<close>

definition parses :: "env \<Rightarrow> Transaction \<Rightarrow> bool" where
  "parses e t = (case py_strptime e (date t) of Inr d \<Rightarrow> True | Inl err \<Rightarrow> False)"

definition in_period :: "env \<Rightarrow> int \<Rightarrow> Transaction \<Rightarrow> bool" where
  "in_period e days t =
     (case py_strptime e (date t) of Inr d \<Rightarrow> now e - timedelta days \<le> d | Inl err \<Rightarrow> False)"

text \<open>
  The cutoff of \<open>days\<close> days is representable when \<^verbatim>\<open>timedelta(days=days)\<close> and
  \<^verbatim>\<open>now - timedelta(days=days)\<close> are within the library's ranges.
\<close>

definition representable :: "env \<Rightarrow> int \<Rightarrow> bool" where
  "representable e days \<longleftrightarrow>
     \<bar>days\<bar> \<le> 999999999 \<and> datetime_min \<le> now e - timedelta days \<and>
     now e - timedelta days \<le> datetime_max"

definition is_str :: "json \<Rightarrow> bool" where
  "is_str v = (case v of JStr s \<Rightarrow> True | _ \<Rightarrow> False)"

text \<open>
  What the constructor establishes for every transaction it builds: the amount is not
  negative, category and type are in lower case, and the date is a true value.
\<close>

definition valid_transaction :: "Transaction \<Rightarrow> bool" where
  "valid_transaction t \<longleftrightarrow>
     0 \<le> amount t \<and> lower (category t) = category t \<and> lower (type' t) = type' t \<and>
     truthy (date t)"

subsection \<open>A small store, for concrete instances\<close>

text \<open>
  The clock reads noon of 15 January 2024 (day 738900 of the calendar); four dates
  parse. The store has a food expense of that day, a salary of 1 January and a food
  expense of 1 November 2023, which is outside the last 30 days. The additions of the
  amounts of these examples are exact in floating point, so \<open>float_add\<close> is \<open>+\<close>.
\<close>

definition example_env :: env where
  "example_env =
     \<lparr> strptime = map_of [(''2024-01-15'', timedelta 738900), (''2024-01-01'', timedelta 738886),
                           (''2023-11-01'', timedelta 738825), (''2023-12-16'', timedelta 738870)],
       now = timedelta 738900 + 43200000000,
       timestamp = 1705320000,
       strftime = ''2024-01-15'',
       float_add = (\<lambda>x y. x + y) \<rparr>"

definition t_food :: Transaction where
  "t_food = \<lparr> id' = JNum 1, amount = 40, category = ''food'', description = JStr ''lunch'',
              type' = ''expense'', date = JStr ''2024-01-15'' \<rparr>"

definition t_salary :: Transaction where
  "t_salary = \<lparr> id' = JNum 2, amount = 1000, category = ''salary'', description = JStr ''pay'',
                type' = ''income'', date = JStr ''2024-01-01'' \<rparr>"

definition t_old :: Transaction where
  "t_old = \<lparr> id' = JNum 3, amount = 70, category = ''food'', description = JStr ''dinner'',
             type' = ''expense'', date = JStr ''2023-11-01'' \<rparr>"

text \<open>An expense dated exactly 30 days before the day of the clock.\<close>

definition t_edge :: Transaction where
  "t_edge = \<lparr> id' = JNum 6, amount = 9, category = ''misc'', description = JStr ''edge'',
              type' = ''expense'', date = JStr ''2023-12-16'' \<rparr>"

definition t_bad :: Transaction where
  "t_bad = \<lparr> id' = JNum 4, amount = 5, category = ''misc'', description = JStr ''x'',
             type' = ''expense'', date = JStr ''15/01/2024'' \<rparr>"

definition example_store :: FinanceTracker where
  "example_store = \<lparr> transactions = [t_food, t_salary, t_old],
                      budgets = JObj [(''food'', JNum 100)] \<rparr>"

text \<open>
  The categories that have an expense among the transactions \<open>ts\<close>, and the sum of
  the amounts of the expenses of one category: the amounts are added to 0 one by one,
  in the order of \<open>ts\<close>, with the machine's addition.
\<close>

definition expense_categories :: "Transaction list \<Rightarrow> string set" where
  "expense_categories ts = set (map category (filter (\<lambda>t. type' t = ''expense'') ts))"

definition category_total :: "env \<Rightarrow> Transaction list \<Rightarrow> string \<Rightarrow> real" where
  "category_total e ts c =
     foldl (float_add e) 0
       (map amount (filter (\<lambda>t. type' t = ''expense'' \<and> category t = c) ts))"

definition t_rent :: Transaction where
  "t_rent = \<lparr> id' = JNum 5, amount = 40, category = ''rent'', description = JStr ''flat'',
              type' = ''expense'', date = JStr ''2024-01-01'' \<rparr>"

text \<open>
  Three food expenses of 0.1, 0.2 and 0.3: the amounts are the doubles that
  \<^verbatim>\<open>float("0.1")\<close>, \<^verbatim>\<open>float("0.2")\<close> and \<^verbatim>\<open>float("0.3")\<close> denote
  (\<^verbatim>\<open>as_integer_ratio()\<close>). \<open>double_add\<close> is IEEE 754 double addition on the
  pairs of operands that the sums of these three amounts meet: 0.1 + 0.2, then + 0.3,
  and 0.5 + 0.1 are rounded to the nearest double (0.30000000000000004,
  0.6000000000000001 and 0.6); 0 + x and 0.3 + 0.2 = 0.5 are exact.
\<close>

definition tenth :: real where
  "tenth = 3602879701896397 / 36028797018963968"

definition fifth :: real where
  "fifth = 3602879701896397 / 18014398509481984"

definition three_tenths :: real where
  "three_tenths = 5404319552844595 / 18014398509481984"

definition double_add :: "real \<Rightarrow> real \<Rightarrow> real" where
  "double_add x y =
     (if x = tenth \<and> y = fifth then 5404319552844596 / 18014398509481984
      else if x = 5404319552844596 / 18014398509481984 \<and> y = three_tenths
        then 5404319552844596 / 9007199254740992
      else if x = 1 / 2 \<and> y = tenth then 5404319552844595 / 9007199254740992
      else x + y)"

definition double_env :: env where
  "double_env = example_env\<lparr> float_add := double_add \<rparr>"

definition t_tenth :: Transaction where
  "t_tenth = \<lparr> id' = JNum 7, amount = tenth, category = ''food'', description = JStr ''a'',
               type' = ''expense'', date = JStr ''2024-01-15'' \<rparr>"

definition t_fifth :: Transaction where
  "t_fifth = \<lparr> id' = JNum 8, amount = fifth, category = ''food'', description = JStr ''b'',
               type' = ''expense'', date = JStr ''2024-01-15'' \<rparr>"

definition t_three_tenths :: Transaction where
  "t_three_tenths = \<lparr> id' = JNum 9, amount = three_tenths, category = ''food'',
                      description = JStr ''c'', type' = ''expense'', date = JStr ''2024-01-15'' \<rparr>"

text \<open>
  A budget value is a number when \<^verbatim>\<open>check_budgets\<close> can subtract from it; the
  status that the specification gives a category with budget \<open>b\<close> and spending \<open>sp\<close>.
\<close>

definition is_num :: "json \<Rightarrow> bool" where
  "is_num v = (case py_num v of Inr r \<Rightarrow> True | Inl err \<Rightarrow> False)"

definition num_of :: "json \<Rightarrow> real" where
  "num_of v = (case py_num v of Inr r \<Rightarrow> r | Inl err \<Rightarrow> 0)"

definition status_of :: "real \<Rightarrow> real \<Rightarrow> status" where
  "status_of b sp =
     \<lparr> budget = b, spent = sp, remaining = b - sp,
       percentage = (if b > 0 then sp / b * 100 else 0) \<rparr>"

text \<open>The relations between the four fields of a status.\<close>

definition status_ok :: "status \<Rightarrow> bool" where
  "status_ok st \<longleftrightarrow>
     remaining st = budget st - spent st \<and>
     (budget st > 0 \<longrightarrow> percentage st = spent st / budget st * 100) \<and>
     (budget st \<le> 0 \<longrightarrow> percentage st = 0)"

text \<open>The recommendation that one budgeted category contributes.\<close>

definition category_warning :: "string \<times> status \<Rightarrow> recommendation list" where
  "category_warning cs =
     (if percentage (snd cs) > 90 then [BudgetExceeded (fst cs)]
      else if percentage (snd cs) > 75 then [BudgetWarning (fst cs) (percentage (snd cs))]
      else [])"

definition example_spender :: FinanceTracker where
  "example_spender =
     \<lparr> transactions = [t_food, t_rent],
       budgets = JObj [(''food'', JNum 42), (''misc'', JNum 100), (''rent'', JNum 50)] \<rparr>"

text \<open>
  A transaction record of a file misses a required field when it is a dict without one
  of the six keys. Its fields are well typed when the amount, where present, is a
  number and the category and the type, where present, are strings: those are the
  values on which the constructor does not raise.
\<close>

definition required_fields :: "string list" where
  "required_fields = [''amount'', ''category'', ''description'', ''type'', ''date'', ''id'']"

definition missing_field :: "json \<Rightarrow> bool" where
  "missing_field r =
     (case r of JObj kvs \<Rightarrow> \<exists>k \<in> set required_fields. map_of kvs k = None | _ \<Rightarrow> False)"

definition field_ok :: "(string \<times> json) list \<Rightarrow> string \<Rightarrow> (json \<Rightarrow> bool) \<Rightarrow> bool" where
  "field_ok kvs k P = (case map_of kvs k of None \<Rightarrow> True | Some v \<Rightarrow> P v)"

definition typed_fields :: "json \<Rightarrow> bool" where
  "typed_fields r =
     (case r of
        JObj kvs \<Rightarrow> field_ok kvs ''amount'' is_num \<and> field_ok kvs ''category'' is_str \<and>
                    field_ok kvs ''type'' is_str
      | _ \<Rightarrow> False)"

text \<open>A file with one record: it has no id, and its amount is a string.\<close>

definition bad_record :: json where
  "bad_record =
     JObj [(''amount'', JStr ''x''), (''category'', JStr ''food''), (''description'', JStr ''d''),
           (''type'', JStr ''expense''), (''date'', JStr ''2024-01-15'')]"

definition bad_document :: json where
  "bad_document = JObj [(''transactions'', JArr [bad_record]), (''budgets'', JObj [])]"

text \<open>A file whose only record lacks the amount.\<close>

definition no_amount_document :: json where
  "no_amount_document =
     JObj [(''transactions'',
            JArr [JObj [(''id'', JNum 1), (''category'', JStr ''food''),
                        (''description'', JStr ''d''), (''type'', JStr ''expense''),
                        (''date'', JStr ''2024-01-15'')]]),
           (''budgets'', JObj [(''food'', JNum 100)])]"

text \<open>
  The invariant of the budgets: every key is in lower case (a key \<open>k\<close> is, when
  \<^verbatim>\<open>k.lower() == k\<close>).
\<close>

definition lowercase_keys :: "json \<Rightarrow> bool" where
  "lowercase_keys b = (case b of JObj kvs \<Rightarrow> \<forall>k \<in> set (map fst kvs). lower k = k | _ \<Rightarrow> True)"

text \<open>A file with the budget key \<^verbatim>\<open>"Food"\<close>.\<close>

definition capital_document :: json where
  "capital_document = JObj [(''transactions'', JArr []), (''budgets'', JObj [(''Food'', JNum 100)])]"

section \<open>Auxiliary facts\<close>

lemma seq_Inl [simp]: "seq (Inl err) f = Inl err"
  by (simp add: seq_def)

lemma seq_Inr [simp]: "seq (Inr x) f = f x"
  by (simp add: seq_def)

lemma seq_eq_Inr: "seq m f = Inr y \<longleftrightarrow> (\<exists>x. m = Inr x \<and> f x = Inr y)"
  by (cases m) simp_all

lemma seq_eq_Inl: "seq m f = Inl err \<longleftrightarrow> m = Inl err \<or> (\<exists>x. m = Inr x \<and> f x = Inl err)"
  by (cases m) auto

subsection \<open>The period filter\<close>

lemma filter_period_Inr:
  "filter_period e c ts = Inr r \<longleftrightarrow>
     (\<forall>t \<in> set ts. parses e t) \<and>
     r = filter (\<lambda>t. case py_strptime e (date t) of Inr d \<Rightarrow> c \<le> d | Inl err \<Rightarrow> False) ts"
proof (induction ts arbitrary: r)
  case Nil
  show ?case by auto
next
  case (Cons t ts)
  show ?case
  proof (cases "py_strptime e (date t)")
    case (Inl err)
    then show ?thesis by (simp add: parses_def)
  next
    case (Inr d)
    then show ?thesis
      using Cons.IH by (auto simp: parses_def seq_eq_Inr)
  qed
qed

lemma filter_period_Inl_str:
  "\<forall>t \<in> set ts. is_str (date t) \<Longrightarrow> filter_period e c ts = Inl err \<Longrightarrow> err = ValueError"
proof (induction ts)
  case Nil
  then show ?case by simp
next
  case (Cons t ts)
  then show ?case
    by (auto simp: seq_eq_Inl is_str_def split: if_splits option.splits json.splits)
qed

lemma period_unfold:
  "get_transactions_by_period e s days =
     (if representable e days then filter_period e (now e - timedelta days) (transactions s)
      else Inl OverflowError)"
  by (simp add: get_transactions_by_period_def py_timedelta_def datetime_sub_def
      representable_def)

lemma period_Inr:
  "get_transactions_by_period e s days = Inr r \<longleftrightarrow>
     representable e days \<and> (\<forall>t \<in> set (transactions s). parses e t) \<and>
     r = filter (in_period e days) (transactions s)"
  by (simp add: period_unfold filter_period_Inr in_period_def [abs_def])

lemma period_overflow:
  "\<not> representable e days \<Longrightarrow> get_transactions_by_period e s days = Inl OverflowError"
  by (simp add: period_unfold)

lemmas period_defs =
  get_transactions_by_period_def py_timedelta_def datetime_sub_def datetime_min_def
  datetime_max_def timedelta_def

lemma example_representable:
  "representable example_env 7" "representable example_env 30" "representable example_env 90"
  "representable (example_env\<lparr> now := timedelta 738900 \<rparr>) 30"
  "\<not> representable example_env 1000000000" "\<not> representable example_env 738900"
  by (simp_all add: representable_def example_env_def datetime_min_def datetime_max_def
      timedelta_def)

subsection \<open>Construction and serialisation of a transaction\<close>

lemma lower_char_idem: "lower_char (lower_char c) = lower_char c"
  by (simp add: lower_char_def Let_def)

lemma lower_idem: "lower (lower s) = lower s"
  by (simp add: lower_def lower_char_idem)

lemma Transaction_init_Inr:
  "Transaction_init e a c d ty dt = Inr t \<longleftrightarrow>
     (\<exists>a' c' ty'. py_abs a = Inr a' \<and> py_lower c = Inr c' \<and> py_lower ty = Inr ty' \<and>
        t = \<lparr> id' = JNum (timestamp e), amount = a', category = c', description = d,
              type' = ty', date = (if truthy dt then dt else JStr (strftime e)) \<rparr>)"
  by (auto simp: Transaction_init_def seq_eq_Inr)

lemma py_abs_nonneg: "py_abs a = Inr r \<Longrightarrow> 0 \<le> r"
  by (cases a) auto

lemma py_lower_Inr: "py_lower c = Inr c' \<longleftrightarrow> (\<exists>s. c = JStr s \<and> c' = lower s)"
  by (cases c) auto

lemma Transaction_init_valid:
  "Transaction_init e a c d ty dt = Inr t \<Longrightarrow> strftime e \<noteq> [] \<Longrightarrow> valid_transaction t"
  by (auto simp: Transaction_init_Inr valid_transaction_def py_lower_Inr lower_idem
      dest: py_abs_nonneg)

lemma from_dict_Inr:
  "from_dict e data = Inr t \<longleftrightarrow>
     (\<exists>a c d ty dt t0 i. getitem data ''amount'' = Inr a \<and> getitem data ''category'' = Inr c \<and>
        getitem data ''description'' = Inr d \<and> getitem data ''type'' = Inr ty \<and>
        getitem data ''date'' = Inr dt \<and> Transaction_init e a c d ty dt = Inr t0 \<and>
        getitem data ''id'' = Inr i \<and> t = t0\<lparr> id' := i \<rparr>)"
  unfolding from_dict_def seq_eq_Inr by blast

lemma from_dict_valid:
  assumes "from_dict e data = Inr t" "strftime e \<noteq> []"
  shows "valid_transaction t"
proof -
  from assms(1) obtain a c d ty dt t0 i where
    "Transaction_init e a c d ty dt = Inr t0" "t = t0\<lparr> id' := i \<rparr>"
    unfolding from_dict_Inr by blast
  with assms(2) Transaction_init_valid [of e a c d ty dt t0] show ?thesis
    by (simp add: valid_transaction_def)
qed

lemma from_dict_to_dict:
  "valid_transaction t \<Longrightarrow> from_dict e (to_dict t) = Inr t"
  by (simp add: valid_transaction_def from_dict_def to_dict_def Transaction_init_def)

lemma from_dicts_to_dict:
  "\<forall>t \<in> set ts. valid_transaction t \<Longrightarrow> from_dicts e (map to_dict ts) = Inr ts"
  by (induction ts) (simp_all add: from_dict_to_dict)

lemma load_save:
  "\<forall>t \<in> set (transactions s). valid_transaction t \<Longrightarrow>
     FinanceTracker_init e (save_data s) = Inr (s, False)"
  by (simp add: FinanceTracker_init_def load_data_def save_data_def load_body_def
      from_dicts_to_dict empty_tracker_def)

section \<open>Transactions of a period\<close>




lemma lower_examples:
  "lower ''Food'' = ''food''" "lower ''Expense'' = ''expense''"
  "lower ''food'' = ''food''" "lower ''expense'' = ''expense''"
  by code_simp+

section \<open>The stored amount\<close>

text \<open>
  C7. The amount a transaction stores is \<^verbatim>\<open>abs\<close> of the amount given, so it is
  never negative, both for the constructor and for \<^verbatim>\<open>from_dict\<close> (which builds
  the transaction with the constructor). Constructing from \<open>r\<close> and from \<open>- r\<close>
  with the same category, description, type and date gives records that differ
  at most in the id, which is the clock's timestamp.
\<close>

theorem stored_amount_is_absolute_value:
  "(\<forall>t. Transaction_init e a c d ty dt = Inr t \<longrightarrow> py_abs a = Inr (amount t) \<and> 0 \<le> amount t) \<and>
   (\<forall>t. from_dict e data = Inr t \<longrightarrow>
      (\<exists>a. getitem data ''amount'' = Inr a \<and> py_abs a = Inr (amount t)) \<and> 0 \<le> amount t) \<and>
   (\<forall>t. Transaction_init e (JNum r) c d ty dt = Inr t \<longrightarrow>
      amount t = \<bar>r\<bar> \<and>
      Transaction_init (e\<lparr> timestamp := ts \<rparr>) (JNum (- r)) c d ty dt = Inr (t\<lparr> id' := JNum ts \<rparr>))"
proof (intro conjI allI impI)
  fix t assume "Transaction_init e a c d ty dt = Inr t"
  then show "py_abs a = Inr (amount t)" "0 \<le> amount t"
    by (auto simp: Transaction_init_Inr dest: py_abs_nonneg)
next
  fix t assume "from_dict e data = Inr t"
  then obtain a c d ty dt t0 i where g: "getitem data ''amount'' = Inr a"
    and t0: "Transaction_init e a c d ty dt = Inr t0" and t: "t = t0\<lparr> id' := i \<rparr>"
    unfolding from_dict_Inr by blast
  from t0 have "py_abs a = Inr (amount t0)" "0 \<le> amount t0"
    by (auto simp: Transaction_init_Inr dest: py_abs_nonneg)
  with g t show "\<exists>a. getitem data ''amount'' = Inr a \<and> py_abs a = Inr (amount t)" "0 \<le> amount t"
    by auto
next
  fix t assume "Transaction_init e (JNum r) c d ty dt = Inr t"
  then show "amount t = \<bar>r\<bar>"
    "Transaction_init (e\<lparr> timestamp := ts \<rparr>) (JNum (- r)) c d ty dt = Inr (t\<lparr> id' := JNum ts \<rparr>)"
    by (auto simp: Transaction_init_Inr)
qed

theorem stored_amount_is_absolute_value_witness:
  "Transaction_init example_env (JNum 50) (JStr ''Food'') (JStr ''lunch'') (JStr ''Expense'') JNull =
     Inr \<lparr> id' = JNum 1705320000, amount = 50, category = ''food'', description = JStr ''lunch'',
           type' = ''expense'', date = JStr ''2024-01-15'' \<rparr> \<and>
   Transaction_init (example_env\<lparr> timestamp := 7 \<rparr>) (JNum (- 50)) (JStr ''Food'') (JStr ''lunch'')
       (JStr ''Expense'') JNull =
     Inr \<lparr> id' = JNum 7, amount = 50, category = ''food'', description = JStr ''lunch'',
           type' = ''expense'', date = JStr ''2024-01-15'' \<rparr> \<and>
   from_dict example_env (to_dict (t_food\<lparr> amount := - 40 \<rparr>)) = Inr t_food"
proof -
  note l = lower_examples
  have i: "Transaction_init example_env (JNum 50) (JStr ''Food'') (JStr ''lunch'') (JStr ''Expense'') JNull =
     Inr \<lparr> id' = JNum 1705320000, amount = 50, category = ''food'', description = JStr ''lunch'',
           type' = ''expense'', date = JStr ''2024-01-15'' \<rparr>"
    by (simp add: Transaction_init_def l example_env_def)
  have f: "from_dict example_env (to_dict (t_food\<lparr> amount := - 40 \<rparr>)) = Inr t_food"
    by (simp add: from_dict_def to_dict_def Transaction_init_def l t_food_def)
  show ?thesis
    using stored_amount_is_absolute_value [of example_env "JNum 50" "JStr ''Food''" "JStr ''lunch''"
        "JStr ''Expense''" JNull "to_dict (t_food\<lparr> amount := - 40 \<rparr>)" 50 7] i f
    by simp
qed

section \<open>Income against expenses\<close>


lemma example_period:
  "get_transactions_by_period example_env example_store 30 = Inr [t_food, t_salary]"
  "get_transactions_by_period example_env (example_store\<lparr> transactions := [t_old] \<rparr>) 30 = Inr []"
  by (simp_all add: period_defs example_store_def example_env_def
      t_food_def t_salary_def t_old_def timedelta_def)

lemma example_parses:
  "parses example_env t_food" "parses example_env t_salary" "parses example_env t_old"
  "\<not> parses example_env t_bad"
  by (simp_all add: parses_def example_env_def t_food_def t_salary_def t_old_def t_bad_def)


section \<open>Serialisation round trip\<close>

text \<open>
  C2. \<^verbatim>\<open>from_dict(to_dict(t))\<close> is \<open>t\<close> itself, with all six fields and the
  original id, for every transaction that satisfies what the constructor establishes;
  every transaction built by the constructor or by \<^verbatim>\<open>from_dict\<close> is such a
  transaction (\<^verbatim>\<open>strftime\<close> never returns the empty string, which is the condition
  on the clock). Consequently \<^verbatim>\<open>add_transaction\<close> on a store of such transactions
  always returns, and loading the file it saved gives back the whole store, the new
  transaction last, without a warning.
\<close>

theorem from_dict_to_dict_roundtrip:
  "(valid_transaction t \<longrightarrow> from_dict e' (to_dict t) = Inr t) \<and>
   (strftime e \<noteq> [] \<longrightarrow>
      (\<forall>t. Transaction_init e a c d ty dt = Inr t \<longrightarrow> from_dict e' (to_dict t) = Inr t) \<and>
      (\<forall>t. from_dict e data = Inr t \<longrightarrow> from_dict e' (to_dict t) = Inr t)) \<and>
   (strftime e \<noteq> [] \<and> (\<forall>t \<in> set (transactions s). valid_transaction t) \<longrightarrow>
      (let t = \<lparr> id' = JNum (timestamp e), amount = \<bar>amt\<bar>, category = lower cat,
                 description = JStr desc, type' = lower typ, date = JStr (strftime e) \<rparr>;
           s' = s\<lparr> transactions := transactions s @ [t] \<rparr>
       in add_transaction e s amt cat desc typ = Inr (s', save_data s') \<and>
          FinanceTracker_init e' (save_data s') = Inr (s', False)))"
proof (intro conjI allI impI)
  assume "valid_transaction t"
  then show "from_dict e' (to_dict t) = Inr t" by (rule from_dict_to_dict)
next
  fix t assume "strftime e \<noteq> []" "Transaction_init e a c d ty dt = Inr t"
  then show "from_dict e' (to_dict t) = Inr t"
    by (intro from_dict_to_dict Transaction_init_valid)
next
  fix t assume "strftime e \<noteq> []" "from_dict e data = Inr t"
  then show "from_dict e' (to_dict t) = Inr t"
    by (intro from_dict_to_dict from_dict_valid [of e data t])
next
  assume a: "strftime e \<noteq> [] \<and> (\<forall>t \<in> set (transactions s). valid_transaction t)"
  define t where "t = \<lparr> id' = JNum (timestamp e), amount = \<bar>amt\<bar>, category = lower cat,
                 description = JStr desc, type' = lower typ, date = JStr (strftime e) \<rparr>"
  define s' where "s' = s\<lparr> transactions := transactions s @ [t] \<rparr>"
  have i: "Transaction_init e (JNum amt) (JStr cat) (JStr desc) (JStr typ) JNull = Inr t"
    by (simp add: Transaction_init_def t_def)
  then have "valid_transaction t"
    using a by (intro Transaction_init_valid [OF i]) simp
  with a have "\<forall>t \<in> set (transactions s'). valid_transaction t"
    by (simp add: s'_def)
  then have "FinanceTracker_init e' (save_data s') = Inr (s', False)"
    by (rule load_save)
  moreover have "add_transaction e s amt cat desc typ = Inr (s', save_data s')"
    by (simp add: add_transaction_def i s'_def Let_def)
  ultimately show "let t = \<lparr> id' = JNum (timestamp e), amount = \<bar>amt\<bar>, category = lower cat,
                 description = JStr desc, type' = lower typ, date = JStr (strftime e) \<rparr>;
           s' = s\<lparr> transactions := transactions s @ [t] \<rparr>
       in add_transaction e s amt cat desc typ = Inr (s', save_data s') \<and>
          FinanceTracker_init e' (save_data s') = Inr (s', False)"
    by (simp add: Let_def t_def s'_def)
qed

lemma example_valid:
  "valid_transaction t_food" "valid_transaction t_salary" "valid_transaction t_old"
proof -
  have "lower ''salary'' = ''salary''" "lower ''income'' = ''income''"
    by code_simp+
  then show "valid_transaction t_food" "valid_transaction t_salary" "valid_transaction t_old"
    by (simp_all add: valid_transaction_def t_food_def t_salary_def t_old_def lower_examples)
qed

theorem from_dict_to_dict_roundtrip_witness:
  "from_dict example_env (to_dict t_food) = Inr t_food \<and>
   (\<exists>t. Transaction_init example_env (JNum (- 50)) (JStr ''Food'') (JStr ''lunch'')
           (JStr ''Expense'') JNull = Inr t \<and>
        from_dict example_env (to_dict t) = Inr t) \<and>
   (\<exists>s'. add_transaction example_env example_store (- 50) ''Food'' ''lunch'' ''Expense'' =
            Inr (s', save_data s') \<and>
          transactions s' = [t_food, t_salary, t_old,
            \<lparr> id' = JNum 1705320000, amount = 50, category = ''food'',
              description = JStr ''lunch'', type' = ''expense'', date = JStr ''2024-01-15'' \<rparr>] \<and>
          FinanceTracker_init example_env (save_data s') = Inr (s', False))"
proof -
  have n: "strftime example_env \<noteq> []"
    by (simp add: example_env_def)
  have v: "\<forall>t \<in> set (transactions example_store). valid_transaction t"
    by (simp add: example_store_def example_valid)
  have i: "Transaction_init example_env (JNum (- 50)) (JStr ''Food'') (JStr ''lunch'')
           (JStr ''Expense'') JNull =
      Inr \<lparr> id' = JNum 1705320000, amount = 50, category = ''food'',
              description = JStr ''lunch'', type' = ''expense'', date = JStr ''2024-01-15'' \<rparr>"
    by (simp add: Transaction_init_def lower_examples example_env_def)
  have e: "timestamp example_env = 1705320000" "strftime example_env = ''2024-01-15''"
    by (simp_all add: example_env_def)
  show ?thesis
    using from_dict_to_dict_roundtrip [of t_food example_env example_env "JNum (- 50)"
        "JStr ''Food''" "JStr ''lunch''" "JStr ''Expense''" JNull "to_dict t_food" example_store
        "- 50" "''Food''" "''lunch''" "''Expense''"] n v i
    by (simp add: example_valid Let_def lower_examples e example_store_def)
qed

subsection \<open>Dicts and the spending loop\<close>

lemma map_of_dict_set: "map_of (dict_set d k v) = (map_of d)(k \<mapsto> v)"
  by (induction d) (auto simp: fun_eq_iff)

lemma map_fst_dict_set:
  "map fst (dict_set d k v) = (if k \<in> fst ` set d then map fst d else map fst d @ [k])"
  by (induction d) (auto simp: rev_image_eqI)

lemma keys_dict_set: "fst ` set (dict_set d k v) = insert k (fst ` set d)"
proof -
  have "set (map fst (dict_set d k v)) = insert k (set (map fst d))"
    unfolding map_fst_dict_set by auto
  then show ?thesis by simp
qed

lemma distinct_dict_set: "distinct (map fst d) \<Longrightarrow> distinct (map fst (dict_set d k v))"
  unfolding map_fst_dict_set by auto

lemma get_or_dict_set: "get_or (dict_set d k v) c dflt = (if c = k then v else get_or d c dflt)"
  by (simp add: get_or_def map_of_dict_set)

lemma keys_spending_loop:
  "fst ` set (spending_loop e ts acc) = fst ` set acc \<union> expense_categories ts"
  by (induction ts arbitrary: acc) (auto simp: keys_dict_set expense_categories_def)

lemma distinct_spending_loop:
  "distinct (map fst acc) \<Longrightarrow> distinct (map fst (spending_loop e ts acc))"
  by (induction ts arbitrary: acc) (auto simp: distinct_dict_set)

lemma get_or_spending_loop:
  "get_or (spending_loop e ts acc) c 0 =
     foldl (float_add e) (get_or acc c 0)
       (map amount (filter (\<lambda>t. type' t = ''expense'' \<and> category t = c) ts))"
  by (induction ts arbitrary: acc) (auto simp: get_or_dict_set)

lemma spending_loop_expenses:
  "spending_loop e (filter (\<lambda>t. type' t = ''expense'') ts) acc = spending_loop e ts acc"
  by (induction ts arbitrary: acc) auto

lemma get_or_distinct:
  "distinct (map fst d) \<Longrightarrow> (c, v) \<in> set d \<Longrightarrow> get_or d c dflt = v"
  by (simp add: get_or_def)

lemma spending_loop_value:
  assumes "(c, v) \<in> set (spending_loop e ts [])"
  shows "v = category_total e ts c"
proof -
  have "distinct (map fst (spending_loop e ts []))"
    by (rule distinct_spending_loop) simp
  then have "get_or (spending_loop e ts []) c 0 = v"
    using assms by (rule get_or_distinct)
  moreover have "get_or [] c 0 = 0"
    by (simp add: get_or_def)
  ultimately show ?thesis
    unfolding get_or_spending_loop category_total_def by simp
qed

lemma distinct_keys_sorted_desc:
  "distinct (map fst (sorted_desc d)) = distinct (map fst d)"
proof -
  have "mset (map fst (sorted_desc d)) = mset (map fst d)"
    by (simp add: sorted_desc_def)
  then show ?thesis by (rule mset_eq_imp_distinct_iff)
qed

lemma set_sorted_desc: "set (sorted_desc d) = set d"
  by (simp add: sorted_desc_def)

lemma sorted_sorted_desc: "sorted_wrt (\<lambda>a b. a \<ge> b) (map snd (sorted_desc d))"
proof -
  have "sorted (map (\<lambda>x. - snd x) (sorted_desc d))"
    by (simp add: sorted_desc_def)
  then show ?thesis
    by (simp add: sorted_wrt_map)
qed

lemma spending_Inr:
  "get_transactions_by_period e s days = Inr ts \<Longrightarrow>
     get_spending_by_category e s days = Inr (sorted_desc (spending_loop e ts []))"
  by (simp add: get_spending_by_category_def)

lemma spending_Inl:
  "get_transactions_by_period e s days = Inl err \<Longrightarrow> get_spending_by_category e s days = Inl err"
  by (simp add: get_spending_by_category_def)

lemma spending_Inr_iff:
  "get_spending_by_category e s days = Inr r \<longleftrightarrow>
     representable e days \<and> (\<forall>t \<in> set (transactions s). parses e t) \<and>
     r = sorted_desc (spending_loop e (filter (in_period e days) (transactions s)) [])"
  by (auto simp: get_spending_by_category_def seq_eq_Inr period_Inr)

lemma spending_loop_no_expense:
  "\<forall>t \<in> set ts. type' t \<noteq> ''expense'' \<Longrightarrow> spending_loop e ts acc = acc"
  by (induction ts arbitrary: acc) auto

section \<open>Spending by category\<close>

text \<open>
  C4. When the cutoff is representable and every date of the store parses,
  \<^verbatim>\<open>get_spending_by_category\<close> returns; with \<open>ts\<close> the transactions of the store
  whose date is in the period, the result is a dict whose keys are exactly the
  categories of the expenses in \<open>ts\<close>, each with the sum of the amounts of that
  category's expenses (added one by one, in the order of the store), in descending
  order of the totals. Only expenses count: the result is the one computed from the
  expenses of \<open>ts\<close> alone, and it is empty when \<open>ts\<close> has no expense. In every other
  case the call raises, with the exception of the period filter.
\<close>

theorem get_spending_by_category_exact:
  "(representable e days \<and> (\<forall>t \<in> set (transactions s). parses e t) \<longrightarrow>
      (let ts = filter (in_period e days) (transactions s)
       in \<exists>r. get_spending_by_category e s days = Inr r \<and>
           distinct (map fst r) \<and>
           set (map fst r) = expense_categories ts \<and>
           (\<forall>(c, v) \<in> set r. v = category_total e ts c) \<and>
           sorted_wrt (\<lambda>a b. a \<ge> b) (map snd r) \<and>
           r = sorted_desc (spending_loop e (filter (\<lambda>t. type' t = ''expense'') ts) []) \<and>
           ((\<forall>t \<in> set ts. type' t \<noteq> ''expense'') \<longrightarrow> r = []))) \<and>
   (\<forall>err. get_transactions_by_period e s days = Inl err \<longrightarrow>
      get_spending_by_category e s days = Inl err) \<and>
   (\<not> (representable e days \<and> (\<forall>t \<in> set (transactions s). parses e t)) \<longrightarrow>
      (\<exists>err. get_spending_by_category e s days = Inl err))"
proof (intro conjI allI impI)
  assume a: "representable e days \<and> (\<forall>t \<in> set (transactions s). parses e t)"
  define ts where "ts = filter (in_period e days) (transactions s)"
  let ?l = "spending_loop e ts []"
  let ?r = "sorted_desc ?l"
  have d: "distinct (map fst ?l)"
    by (rule distinct_spending_loop) simp
  have "get_spending_by_category e s days = Inr ?r"
    using a by (simp add: spending_Inr_iff ts_def)
  moreover have "distinct (map fst ?r)"
    using d by (simp add: distinct_keys_sorted_desc)
  moreover have "set (map fst ?r) = expense_categories ts"
    using keys_spending_loop [of e ts "[]"] by (simp add: set_sorted_desc)
  moreover have "\<forall>(c, v) \<in> set ?r. v = category_total e ts c"
    by (auto simp: set_sorted_desc dest: spending_loop_value)
  moreover have "sorted_wrt (\<lambda>a b. a \<ge> b) (map snd ?r)"
    by (rule sorted_sorted_desc)
  moreover have "?r = sorted_desc (spending_loop e (filter (\<lambda>t. type' t = ''expense'') ts) [])"
    by (simp add: spending_loop_expenses)
  moreover have "(\<forall>t \<in> set ts. type' t \<noteq> ''expense'') \<longrightarrow> ?r = []"
    by (simp add: spending_loop_no_expense sorted_desc_def)
  ultimately have "\<exists>r. get_spending_by_category e s days = Inr r \<and>
           distinct (map fst r) \<and>
           set (map fst r) = expense_categories ts \<and>
           (\<forall>(c, v) \<in> set r. v = category_total e ts c) \<and>
           sorted_wrt (\<lambda>a b. a \<ge> b) (map snd r) \<and>
           r = sorted_desc (spending_loop e (filter (\<lambda>t. type' t = ''expense'') ts) []) \<and>
           ((\<forall>t \<in> set ts. type' t \<noteq> ''expense'') \<longrightarrow> r = [])"
    by blast
  then show "let ts = filter (in_period e days) (transactions s)
       in \<exists>r. get_spending_by_category e s days = Inr r \<and>
           distinct (map fst r) \<and>
           set (map fst r) = expense_categories ts \<and>
           (\<forall>(c, v) \<in> set r. v = category_total e ts c) \<and>
           sorted_wrt (\<lambda>a b. a \<ge> b) (map snd r) \<and>
           r = sorted_desc (spending_loop e (filter (\<lambda>t. type' t = ''expense'') ts) []) \<and>
           ((\<forall>t \<in> set ts. type' t \<noteq> ''expense'') \<longrightarrow> r = [])"
    unfolding Let_def ts_def .
next
  fix err assume "get_transactions_by_period e s days = Inl err"
  then show "get_spending_by_category e s days = Inl err" by (rule spending_Inl)
next
  assume "\<not> (representable e days \<and> (\<forall>t \<in> set (transactions s). parses e t))"
  then have "\<not> (\<exists>r. get_spending_by_category e s days = Inr r)"
    by (auto simp: spending_Inr_iff)
  then show "\<exists>err. get_spending_by_category e s days = Inl err"
    by (cases "get_spending_by_category e s days") auto
qed

lemma example_spending:
  "get_spending_by_category example_env example_store 30 = Inr [(''food'', 40)]"
  "get_spending_by_category example_env example_store 90 = Inr [(''food'', 110)]"
  by (simp_all add: get_spending_by_category_def period_defs example_store_def
      example_env_def t_food_def t_salary_def t_old_def sorted_desc_def get_or_def)

lemma example_in_period:
  "in_period example_env 30 t_food" "in_period example_env 30 t_salary"
  "\<not> in_period example_env 30 t_old" "in_period example_env 90 t_food"
  "in_period example_env 90 t_salary" "in_period example_env 90 t_old"
  by (simp_all add: in_period_def example_env_def t_food_def t_salary_def t_old_def
      timedelta_def)

theorem get_spending_by_category_exact_witness:
  "get_spending_by_category example_env example_store 30 = Inr [(''food'', 40)] \<and>
   filter (in_period example_env 30) (transactions example_store) = [t_food, t_salary] \<and>
   expense_categories [t_food, t_salary] = {''food''} \<and>
   category_total example_env [t_food, t_salary] ''food'' = 40 \<and>
   get_spending_by_category example_env example_store 90 = Inr [(''food'', 110)] \<and>
   category_total example_env [t_food, t_salary, t_old] ''food'' = 110 \<and>
   get_spending_by_category example_env (example_store\<lparr> transactions := [t_salary] \<rparr>) 30 = Inr [] \<and>
   get_spending_by_category example_env (example_store\<lparr> transactions := [t_bad] \<rparr>) 30 =
     Inl ValueError \<and>
   get_spending_by_category example_env example_store 1000000000 = Inl OverflowError"
proof -
  have p: "get_transactions_by_period example_env (example_store\<lparr> transactions := [t_bad] \<rparr>) 30
       = Inl ValueError"
    "get_transactions_by_period example_env example_store 1000000000 = Inl OverflowError"
    by (simp_all add: period_defs example_store_def example_env_def
      t_food_def t_salary_def t_old_def t_bad_def)
  have a: "\<forall>t \<in> set (transactions example_store). parses example_env t"
    "\<forall>t \<in> set (transactions (example_store\<lparr> transactions := [t_salary] \<rparr>)). parses example_env t"
    by (simp_all add: example_store_def example_parses)
  have f: "filter (in_period example_env 30) (transactions example_store) = [t_food, t_salary]"
    "filter (in_period example_env 90) (transactions example_store) = [t_food, t_salary, t_old]"
    by (simp_all add: example_store_def example_in_period)
  have t: "type' t_salary \<noteq> ''expense''"
    by (simp add: t_salary_def)
  have c: "category_total example_env [t_food, t_salary] ''food'' = 40"
    "category_total example_env [t_food, t_salary, t_old] ''food'' = 110"
    "expense_categories [t_food, t_salary] = {''food''}"
    by (simp_all add: category_total_def expense_categories_def example_env_def t_food_def
        t_salary_def t_old_def)
  show ?thesis
    using get_spending_by_category_exact [of example_env 30 example_store]
      get_spending_by_category_exact [of example_env 90 example_store]
      get_spending_by_category_exact [of example_env 30 "example_store\<lparr> transactions := [t_salary] \<rparr>"]
      get_spending_by_category_exact [of example_env 30 "example_store\<lparr> transactions := [t_bad] \<rparr>"]
      get_spending_by_category_exact [of example_env 1000000000 example_store]
      p a f t c example_representable example_spending example_in_period
    by (auto simp: Let_def)
qed

subsection \<open>Reordering the store\<close>

lemma foldl_exact:
  "\<forall>x y. f x y = x + y \<Longrightarrow> foldl f a xs = a + sum_list xs" for a :: real
  by (induction xs arbitrary: a) simp_all

lemma category_total_exact:
  assumes "\<forall>x y. float_add e x y = x + y"
  shows "category_total e ts c =
     sum_mset (image_mset amount (filter_mset (\<lambda>t. type' t = ''expense'' \<and> category t = c) (mset ts)))"
  unfolding category_total_def foldl_exact [OF assms] by (simp flip: sum_mset_sum_list)

lemma map_of_spending_loop:
  "map_of (spending_loop e ts []) c =
     (if c \<in> expense_categories ts then Some (category_total e ts c) else None)"
proof (cases "c \<in> expense_categories ts")
  case True
  then have "c \<in> fst ` set (spending_loop e ts [])"
    by (simp add: keys_spending_loop)
  then obtain v where v: "(c, v) \<in> set (spending_loop e ts [])"
    by auto
  then have "v = category_total e ts c"
    by (rule spending_loop_value)
  moreover have "distinct (map fst (spending_loop e ts []))"
    by (rule distinct_spending_loop) simp
  ultimately show ?thesis
    using v True by simp
next
  case False
  then have "c \<notin> fst ` set (spending_loop e ts [])"
    by (simp add: keys_spending_loop)
  then show ?thesis
    using False by (simp add: map_of_eq_None_iff)
qed

lemma expense_categories_perm:
  "mset ts = mset ts' \<Longrightarrow> expense_categories ts = expense_categories ts'"
  by (auto simp: expense_categories_def dest: mset_eq_setD)

lemma spending_loop_perm:
  assumes "mset ts = mset ts'" "\<forall>x y. float_add e x y = x + y"
  shows "mset (spending_loop e ts []) = mset (spending_loop e ts' [])"
proof -
  have "expense_categories ts = expense_categories ts'"
    using assms(1) by (rule expense_categories_perm)
  moreover have "category_total e ts c = category_total e ts' c" for c
    by (simp add: category_total_exact assms)
  ultimately have "map_of (spending_loop e ts []) = map_of (spending_loop e ts' [])"
    by (simp add: fun_eq_iff map_of_spending_loop)
  moreover have d: "distinct (map fst (spending_loop e ts []))"
    "distinct (map fst (spending_loop e ts' []))"
    by (rule distinct_spending_loop, simp)+
  ultimately have "set (spending_loop e ts []) = set (spending_loop e ts' [])"
    by (simp add: map_of_inject_set)
  moreover have "distinct (spending_loop e ts [])" "distinct (spending_loop e ts' [])"
    using d by (auto simp: distinct_map)
  ultimately show ?thesis
    by (simp add: set_eq_iff_mset_eq_distinct)
qed

lemma map_of_sorted_desc:
  "distinct (map fst d) \<Longrightarrow> map_of (sorted_desc d) = map_of d"
  by (simp add: map_of_inject_set distinct_keys_sorted_desc set_sorted_desc)

lemma mset_sorted_desc: "mset (sorted_desc d) = mset d"
  by (simp add: sorted_desc_def)

lemma spending_loop_without_income:
  "spending_loop e (filter (\<lambda>t. type' t \<noteq> ''income'') ts) acc = spending_loop e ts acc"
  by (induction ts arbitrary: acc) auto

section \<open>Order of the store\<close>




subsection \<open>The budget loop\<close>

lemma dict_set_new: "k \<notin> fst ` set d \<Longrightarrow> dict_set d k v = d @ [(k, v)]"
  by (induction d) auto

lemma percentage_step:
  "(if b > 0 then seq (truediv sp b) (\<lambda>q. Inr (q * 100)) else Inr 0) =
     Inr (if b > 0 then sp / b * 100 else 0)"
  by (simp add: truediv_def)

lemma budget_loop_step:
  "py_num v = Inr b \<Longrightarrow>
     budget_loop sp ((c, v) # rest) acc =
       budget_loop sp rest (dict_set acc c (status_of b (get_or sp c 0)))"
  by (simp add: percentage_step status_of_def Let_def)

lemma budget_loop_step_err:
  "py_num v = Inl err \<Longrightarrow> budget_loop sp ((c, v) # rest) acc = Inl err"
  by simp

lemma py_num_cases:
  obtains (num) b where "py_num v = Inr b" "is_num v" "num_of v = b"
  | (err) "py_num v = Inl TypeError" "\<not> is_num v"
  by (cases v) (auto simp: is_num_def num_of_def)

lemma budget_loop_numbers:
  assumes "\<forall>(k, v) \<in> set items. is_num v" "distinct (map fst items)"
    "fst ` set items \<inter> fst ` set acc = {}"
  shows "budget_loop sp items acc =
     Inr (acc @ map (\<lambda>(c, v). (c, status_of (num_of v) (get_or sp c 0))) items)"
  using assms
proof (induction items arbitrary: acc)
  case Nil
  then show ?case by simp
next
  case (Cons kv items)
  obtain c v where kv: "kv = (c, v)" by (cases kv)
  from Cons.prems kv obtain b where b: "py_num v = Inr b" "num_of v = b"
    by (cases v rule: py_num_cases) auto
  let ?acc = "dict_set acc c (status_of b (get_or sp c 0))"
  have new: "?acc = acc @ [(c, status_of b (get_or sp c 0))]"
    using Cons.prems kv by (intro dict_set_new) auto
  have "budget_loop sp items ?acc =
     Inr (?acc @ map (\<lambda>(c, v). (c, status_of (num_of v) (get_or sp c 0))) items)"
  proof (rule Cons.IH)
    show "\<forall>(k, v) \<in> set items. is_num v" using Cons.prems by simp
    show "distinct (map fst items)" using Cons.prems by simp
    show "fst ` set items \<inter> fst ` set ?acc = {}"
      using Cons.prems kv unfolding new by auto
  qed
  then show ?case
    using b kv by (simp only: budget_loop_step new) simp
qed

lemma budget_loop_error:
  "budget_loop sp items acc = Inl err \<Longrightarrow> err = TypeError"
proof (induction items arbitrary: acc)
  case Nil
  then show ?case by simp
next
  case (Cons kv items)
  obtain c v where kv: "kv = (c, v)" by (cases kv)
  show ?case
  proof (cases v rule: py_num_cases)
    case (num b)
    then show ?thesis
      using Cons kv by (simp only: budget_loop_step)
  next
    case err
    then show ?thesis
      using Cons.prems kv by (simp only: budget_loop_step_err) simp
  qed
qed


lemma status_ok_status_of: "status_ok (status_of b sp)"
  by (simp add: status_ok_def status_of_def)

lemma set_dict_set: "set (dict_set d k v) \<subseteq> insert (k, v) (set d)"
  by (induction d) (auto split: if_splits)

lemma budget_loop_status_ok:
  "budget_loop sp items acc = Inr bs \<Longrightarrow> \<forall>(c, st) \<in> set acc. status_ok st \<Longrightarrow>
     \<forall>(c, st) \<in> set bs. status_ok st"
proof (induction items arbitrary: acc)
  case Nil
  then show ?case by simp
next
  case (Cons kv items)
  obtain c v where kv: "kv = (c, v)" by (cases kv)
  show ?case
  proof (cases v rule: py_num_cases)
    case (num b)
    let ?acc = "dict_set acc c (status_of b (get_or sp c 0))"
    have "budget_loop sp items ?acc = Inr bs"
      using Cons.prems(1) kv num by (simp only: budget_loop_step)
    moreover have "\<forall>(c, st) \<in> set ?acc. status_ok st"
      using Cons.prems(2) set_dict_set [of acc c "status_of b (get_or sp c 0)"]
      by (auto simp: status_ok_status_of)
    ultimately show ?thesis by (rule Cons.IH)
  next
    case err
    then show ?thesis
      using Cons.prems kv by (simp only: budget_loop_step_err) simp
  qed
qed

lemma filter_period_error:
  "filter_period e c ts = Inl err \<Longrightarrow> err = TypeError \<or> err = ValueError"
proof (induction ts)
  case Nil
  then show ?case by simp
next
  case (Cons t ts)
  then show ?case
    by (cases "date t") (auto simp: seq_eq_Inl split: option.splits if_splits)
qed

lemma spending_error:
  "get_spending_by_category e s days = Inl err \<Longrightarrow>
     err = TypeError \<or> err = ValueError \<or> err = OverflowError"
  by (auto simp: get_spending_by_category_def period_unfold seq_eq_Inl
      dest: filter_period_error split: if_splits)

lemma py_items_error: "py_items b = Inl err \<Longrightarrow> err = AttributeError"
  by (cases b) auto

lemma check_budgets_error:
  "check_budgets e s = Inl err \<Longrightarrow>
     err = TypeError \<or> err = ValueError \<or> err = OverflowError \<or> err = AttributeError"
  by (auto simp: check_budgets_def seq_eq_Inl
      dest: spending_error py_items_error budget_loop_error)

section \<open>Budget status\<close>

text \<open>
  C5. For a store whose budgets are a dict of numbers, \<^verbatim>\<open>check_budgets\<close> returns
  one entry for each budgeted category and no other, in the order of the budgets. An
  entry holds the budget, as spent the category's total from
  \<^verbatim>\<open>get_spending_by_category\<close> over 30 days (0 when the category has no spending;
  the function has no \<^verbatim>\<open>days\<close> parameter), remaining = budget - spent, and
  percentage = spent / budget * 100 when the budget is positive and 0 otherwise. The
  division is only reached with a positive budget, so \<^verbatim>\<open>ZeroDivisionError\<close> is
  never raised, whatever the store.
\<close>

theorem check_budgets_exact:
  "(\<forall>kvs sp. budgets s = JObj kvs \<and> distinct (map fst kvs) \<and> (\<forall>(k, v) \<in> set kvs. is_num v) \<and>
        get_spending_by_category e s 30 = Inr sp \<longrightarrow>
      check_budgets e s =
        Inr (map (\<lambda>(c, v). (c, status_of (num_of v) (get_or sp c 0))) kvs)) \<and>
   (\<forall>bs. check_budgets e s = Inr bs \<longrightarrow> (\<forall>(c, st) \<in> set bs. status_ok st)) \<and>
   check_budgets e s \<noteq> Inl ZeroDivisionError"
proof (intro conjI allI impI)
  fix kvs sp
  assume a: "budgets s = JObj kvs \<and> distinct (map fst kvs) \<and> (\<forall>(k, v) \<in> set kvs. is_num v) \<and>
        get_spending_by_category e s 30 = Inr sp"
  then have "budget_loop sp kvs [] =
      Inr ([] @ map (\<lambda>(c, v). (c, status_of (num_of v) (get_or sp c 0))) kvs)"
    by (intro budget_loop_numbers) auto
  then show "check_budgets e s =
        Inr (map (\<lambda>(c, v). (c, status_of (num_of v) (get_or sp c 0))) kvs)"
    using a by (simp add: check_budgets_def)
next
  fix bs assume "check_budgets e s = Inr bs"
  then obtain sp items where "budget_loop sp items [] = Inr bs"
    by (auto simp: check_budgets_def seq_eq_Inr)
  then show "\<forall>(c, st) \<in> set bs. status_ok st"
    by (rule budget_loop_status_ok) simp
next
  show "check_budgets e s \<noteq> Inl ZeroDivisionError"
    by (auto dest: check_budgets_error)
qed

theorem check_budgets_exact_witness:
  "check_budgets example_env example_store =
     Inr [(''food'', \<lparr> budget = 100, spent = 40, remaining = 60, percentage = 40 \<rparr>)] \<and>
   check_budgets example_env
       (example_store\<lparr> budgets := JObj [(''food'', JNum 0), (''rent'', JNum (- 5))] \<rparr>) =
     Inr [(''food'', \<lparr> budget = 0, spent = 40, remaining = - 40, percentage = 0 \<rparr>),
          (''rent'', \<lparr> budget = - 5, spent = 0, remaining = - 5, percentage = 0 \<rparr>)] \<and>
   status_ok \<lparr> budget = 0, spent = 40, remaining = - 40, percentage = 0 \<rparr>"
proof -
  let ?s = "example_store\<lparr> budgets := JObj [(''food'', JNum 0), (''rent'', JNum (- 5))] \<rparr>"
  have sp: "get_spending_by_category example_env example_store 30 = Inr [(''food'', 40)]"
    by (rule example_spending)
  have "get_spending_by_category example_env ?s 30 =
      get_spending_by_category example_env example_store 30"
    by (simp add: get_spending_by_category_def get_transactions_by_period_def)
  with sp have sp': "get_spending_by_category example_env ?s 30 = Inr [(''food'', 40)]"
    by simp
  have b: "budgets example_store = JObj [(''food'', JNum 100)]"
    by (simp add: example_store_def)
  have n: "is_num (JNum 100)" "is_num (JNum 0)" "is_num (JNum (- 5))"
    by (simp_all add: is_num_def)
  have 1: "check_budgets example_env example_store =
     Inr [(''food'', \<lparr> budget = 100, spent = 40, remaining = 60, percentage = 40 \<rparr>)]"
    using check_budgets_exact [of example_store example_env] sp b n
    by (simp add: status_of_def num_of_def get_or_def)
  have 2: "check_budgets example_env ?s =
     Inr [(''food'', \<lparr> budget = 0, spent = 40, remaining = - 40, percentage = 0 \<rparr>),
          (''rent'', \<lparr> budget = - 5, spent = 0, remaining = - 5, percentage = 0 \<rparr>)]"
    using check_budgets_exact [of ?s example_env] sp' n
    by (simp add: status_of_def num_of_def get_or_def)
  show ?thesis
    using 1 2 check_budgets_exact [of ?s example_env] by simp
qed

subsection \<open>The insights\<close>

lemma budget_warnings_concat: "budget_warnings bs = concat (map category_warning bs)"
  by (induction bs) (auto simp: category_warning_def)

lemma mean_Inr: "xs \<noteq> [] \<Longrightarrow> \<exists>m. mean xs = Inr m"
  by (cases xs) auto

lemma py_max_Inr: "xs \<noteq> [] \<Longrightarrow> \<exists>m. py_max xs = Inr m"
  by (cases xs) auto

lemma py_min_Inr: "xs \<noteq> [] \<Longrightarrow> \<exists>m. py_min xs = Inr m"
  by (cases xs) auto

lemma max_by_value_Inr: "xs \<noteq> [] \<Longrightarrow> \<exists>m. max_by_value xs = Inr m"
  by (cases xs) auto

lemma guarded_Inr:
  "(xs \<noteq> [] \<Longrightarrow> \<exists>m. f xs = Inr m) \<Longrightarrow> \<exists>m. (if xs \<noteq> [] then f xs else Inr d) = Inr m"
  by auto

lemma insights_nonempty:
  assumes ts: "get_transactions_by_period e s days = Inr ts" "ts \<noteq> []"
  shows "\<exists>avg largest smallest most sp iv.
     get_spending_by_category e s days = Inr sp \<and> get_income_vs_expenses e s days = Inr iv \<and>
     get_financial_insights e s days =
       seq (check_budgets e s) (\<lambda>budget_status.
         Inr (Insights
           \<lparr> period_days = days, total_transactions = length ts,
             average_expense = avg, largest_expense = largest,
             smallest_expense = smallest, most_expensive_category = most,
             recommendations =
               (if net iv < 0 then [Overspending] else []) @
               (if expenses iv > income iv * 0.8 then [HighSpendRatio] else []) @
               budget_warnings budget_status \<rparr>))"
proof -
  let ?ex = "map amount (filter (\<lambda>t. type' t = ''expense'') ts)"
  obtain avg where avg: "(if ?ex \<noteq> [] then mean ?ex else Inr 0) = Inr avg"
    using guarded_Inr [of ?ex mean 0] mean_Inr by blast
  obtain largest where largest: "(if ?ex \<noteq> [] then py_max ?ex else Inr 0) = Inr largest"
    using guarded_Inr [of ?ex py_max 0] py_max_Inr by blast
  obtain smallest where smallest: "(if ?ex \<noteq> [] then py_min ?ex else Inr 0) = Inr smallest"
    using guarded_Inr [of ?ex py_min 0] py_min_Inr by blast
  obtain sp where sp: "get_spending_by_category e s days = Inr sp"
    using ts by (simp add: get_spending_by_category_def)
  obtain most where most: "(if sp \<noteq> [] then max_by_value sp else Inr []) = Inr most"
    using guarded_Inr [of sp max_by_value "[]"] max_by_value_Inr by blast
  obtain iv where iv: "get_income_vs_expenses e s days = Inr iv"
    using ts by (simp add: get_income_vs_expenses_def Let_def)
  have "get_financial_insights e s days =
       seq (check_budgets e s) (\<lambda>budget_status.
         Inr (Insights
           \<lparr> period_days = days, total_transactions = length ts,
             average_expense = avg, largest_expense = largest,
             smallest_expense = smallest, most_expensive_category = most,
             recommendations =
               (if net iv < 0 then [Overspending] else []) @
               (if expenses iv > income iv * 0.8 then [HighSpendRatio] else []) @
               budget_warnings budget_status \<rparr>))"
    unfolding get_financial_insights_def
    by (simp only: ts seq_Inr if_False Let_def avg largest smallest sp most iv)
  with sp iv show ?thesis by blast
qed

section \<open>Financial insights\<close>


lemma example_spender_facts:
  "get_transactions_by_period example_env example_spender 30 = Inr [t_food, t_rent]"
  "get_income_vs_expenses example_env example_spender 30 =
     Inr \<lparr> income = 0, expenses = 80, net = - 80 \<rparr>"
  "get_spending_by_category example_env example_spender 30 = Inr [(''food'', 40), (''rent'', 40)]"
  by (simp_all add: get_income_vs_expenses_def get_spending_by_category_def
      period_defs example_spender_def example_env_def t_food_def t_rent_def
      timedelta_def sorted_desc_def get_or_def)

lemma example_spender_budgets:
  "check_budgets example_env example_spender =
     Inr [(''food'', \<lparr> budget = 42, spent = 40, remaining = 2, percentage = 2000 / 21 \<rparr>),
          (''misc'', \<lparr> budget = 100, spent = 0, remaining = 100, percentage = 0 \<rparr>),
          (''rent'', \<lparr> budget = 50, spent = 40, remaining = 10, percentage = 80 \<rparr>)]"
  by (simp add: check_budgets_def example_spender_facts)
    (simp add: example_spender_def get_or_def truediv_def)


subsection \<open>Loading\<close>

lemma load_data_warning:
  "load_data e f s = Inr (s', True) \<Longrightarrow> s' = s"
  by (auto simp: load_data_def split: data_file.splits sum.splits if_splits)

lemma load_data_uncaught:
  "load_data e f s = Inl err \<Longrightarrow> \<not> caught err"
  by (auto simp: load_data_def split: data_file.splits sum.splits if_splits)

lemma is_num_py_abs: "is_num v \<Longrightarrow> \<exists>a. py_abs v = Inr a"
  by (cases v) (auto simp: is_num_def)

lemma is_str_py_lower: "is_str v \<Longrightarrow> \<exists>c. py_lower v = Inr c"
  by (cases v) (auto simp: is_str_def)

lemma from_dict_typed:
  assumes "typed_fields r"
  shows "missing_field r \<and> (\<exists>k. from_dict e r = Inl (KeyError k)) \<or>
         \<not> missing_field r \<and> (\<exists>t. from_dict e r = Inr t)"
proof -
  from assms obtain kvs where r: "r = JObj kvs"
    by (cases r) (auto simp: typed_fields_def)
  show ?thesis
  proof (cases "missing_field r")
    case True
    then have "\<exists>k. from_dict e r = Inl (KeyError k)"
      using assms unfolding r missing_field_def required_fields_def from_dict_def
        Transaction_init_def typed_fields_def field_ok_def
      by (auto split: option.splits dest!: is_num_py_abs is_str_py_lower)
    with True show ?thesis by simp
  next
    case False
    then obtain a c d ty dt i where f: "map_of kvs ''amount'' = Some a"
      "map_of kvs ''category'' = Some c" "map_of kvs ''description'' = Some d"
      "map_of kvs ''type'' = Some ty" "map_of kvs ''date'' = Some dt" "map_of kvs ''id'' = Some i"
      unfolding r missing_field_def required_fields_def by auto
    with assms have "is_num a" "is_str c" "is_str ty"
      by (simp_all add: r typed_fields_def field_ok_def)
    then obtain a' c' ty' where "py_abs a = Inr a'" "py_lower c = Inr c'" "py_lower ty = Inr ty'"
      using is_num_py_abs is_str_py_lower by blast
    then have "\<exists>t. from_dict e r = Inr t"
      by (simp add: r from_dict_def f Transaction_init_def)
    with False show ?thesis by simp
  qed
qed

lemma from_dicts_typed_missing:
  "\<forall>r \<in> set rs. typed_fields r \<Longrightarrow> \<exists>r \<in> set rs. missing_field r \<Longrightarrow>
     \<exists>k. from_dicts e rs = Inl (KeyError k)"
proof (induction rs)
  case Nil
  then show ?case by simp
next
  case (Cons r rs)
  from Cons.prems(1) have "typed_fields r" by simp
  then consider (miss) k where "missing_field r" "from_dict e r = Inl (KeyError k)"
    | (ok) t where "\<not> missing_field r" "from_dict e r = Inr t"
    using from_dict_typed [of r e] by blast
  then show ?case
  proof cases
    case miss
    then show ?thesis by simp
  next
    case ok
    with Cons.prems have "\<exists>k. from_dicts e rs = Inl (KeyError k)"
      by (intro Cons.IH) auto
    with ok show ?thesis by auto
  qed
qed

section \<open>Loading the store\<close>




subsection \<open>The keys of the budgets\<close>

lemma load_data_budgets:
  "load_data e (Document data) s = Inr (s', w) \<Longrightarrow>
     budgets s' = budgets s \<or> budgets s' = JObj [] \<or>
     getitem data ''budgets'' = Inr (budgets s')"
  unfolding load_data_def load_body_def
  by (cases data)
    (auto simp: seq_eq_Inr split: sum.splits if_splits option.splits)

lemma set_budget_Inr:
  "set_budget s c a = Inr (s', f) \<longleftrightarrow>
     (\<exists>kvs. budgets s = JObj kvs \<and> s' = s\<lparr> budgets := JObj (dict_set kvs (lower c) (JNum a)) \<rparr> \<and>
        f = save_data s')"
  by (cases "budgets s") (auto simp: set_budget_def Let_def)

section \<open>Lower-case budget keys\<close>




end
